theory Spec2Isabelle
  imports Main "HOL-Library.Word" "HOL-Library.Monad_Syntax"
begin

text \<open>
  A model of \<^verbatim>\<open>main.go\<close>: the function \<^verbatim>\<open>fibonacci\<close> and the two handlers, with the
  spans they record and the clock they read as explicit state. What \<^verbatim>\<open>main\<close> does
  besides (registering the counter and the handlers, creating the exporter, the goroutine
  that increments the counter on a timer) lies in the libraries and in real time, and is
  not modelled.
\<close>

section \<open>Go standard library: strconv\<close>

text \<open>
  The handlers of \<^verbatim>\<open>main.go\<close> call \<^verbatim>\<open>strconv.ParseInt(n, 10, 64)\<close>,
  \<^verbatim>\<open>strconv.FormatUint(ret, 10)\<close> and \<^verbatim>\<open>fmt.Sprintf("fibonacci-%d", n)\<close>. These are
  functions of Go's standard library; they are modelled here for base 10 and 64 bits, the
  only arguments the program passes.
\<close>

type_synonym uint64 = "64 word"

datatype NumError = ErrSyntax | ErrRange

definition is_digit :: "char \<Rightarrow> bool" where
  "is_digit c = (48 \<le> (of_char c :: nat) \<and> (of_char c :: nat) \<le> 57)"

definition digit_val :: "char \<Rightarrow> nat" where
  "digit_val c = (of_char c :: nat) - 48"

definition maxUint64 :: nat where
  "maxUint64 = 18446744073709551615"

text \<open>
  The digit loop of \<^verbatim>\<open>ParseUint\<close>: a byte that is no decimal digit is a syntax error; a
  value that no longer fits 64 bits is a range error, reported at the digit that
  overflows (the bytes after it are not looked at).
\<close>

fun ParseUint_loop :: "nat \<Rightarrow> string \<Rightarrow> NumError + nat" where
  "ParseUint_loop n [] = Inr n"
| "ParseUint_loop n (c # cs) =
     (if \<not> is_digit c then Inl ErrSyntax
      else if maxUint64 div 10 + 1 \<le> n then Inl ErrRange
      else let n1 = n * 10 + digit_val c
           in if maxUint64 < n1 then Inl ErrRange else ParseUint_loop n1 cs)"

definition ParseUint :: "string \<Rightarrow> NumError + nat" where
  "ParseUint s = (if s = [] then Inl ErrSyntax else ParseUint_loop 0 s)"

text \<open>
  \<^verbatim>\<open>ParseInt\<close>: the empty string is a syntax error; one leading sign is picked off; the
  rest goes through \<^verbatim>\<open>ParseUint\<close>; the magnitude must fit an \<^verbatim>\<open>int64\<close>
  (\<open>2 ^ 63\<close> is the cutoff; it is allowed for a negative number only).
\<close>

definition ParseInt :: "string \<Rightarrow> NumError + int" where
  "ParseInt s =
     (case s of
        [] \<Rightarrow> Inl ErrSyntax
      | c # cs \<Rightarrow>
          let neg = (c = CHR ''-'');
              s' = (if c = CHR ''+'' \<or> c = CHR ''-'' then cs else s)
          in (case ParseUint s' of
                Inl e \<Rightarrow> Inl e
              | Inr un \<Rightarrow>
                  (if \<not> neg \<and> 2 ^ 63 \<le> un then Inl ErrRange
                   else if neg \<and> 2 ^ 63 < un then Inl ErrRange
                   else Inr (if neg then - int un else int un))))"

text \<open>The conversion \<^verbatim>\<open>uint64(nCount)\<close> of an \<^verbatim>\<open>int64\<close>: the same 64 bits.\<close>

definition uint64 :: "int \<Rightarrow> uint64" where
  "uint64 i = word_of_int i"

text \<open>
  \<^verbatim>\<open>FormatUint(w, 10)\<close>: the decimal digits, the most significant first. A digit is
  looked up in the string of the ten digits, at an index below 10 always.
\<close>

definition digit_char :: "nat \<Rightarrow> char" where
  "digit_char d = ''0123456789'' ! d"

function format_decimal :: "nat \<Rightarrow> string" where
  "format_decimal n =
     (if n < 10 then [digit_char n]
      else format_decimal (n div 10) @ [digit_char (n mod 10)])"
  by pat_completeness auto
termination
  by (relation "measure (\<lambda>n. n)") auto

declare format_decimal.simps [simp del]

definition FormatUint :: "uint64 \<Rightarrow> string" where
  "FormatUint w = format_decimal (unat w)"

section \<open>The tracing SDK and the clock\<close>

text \<open>
  Spans are owned by the OpenTelemetry SDK. The model keeps what \<^verbatim>\<open>main.go\<close> does
  with them: a span is started under the span of the context it is given, gets attributes
  and events while it is open, and is handed to the batch processor when it ends. The
  record \<open>runtime\<close> is the state outside the program's own variables: the spans recorded
  so far (a span's id is its index), the ids in the order the spans ended, and the
  clock, as the sequence of values that \<^verbatim>\<open>time.Now().UnixNano()\<close> returns.
\<close>

type_synonym span_id = nat

text \<open>A \<^verbatim>\<open>context.Context\<close>, as far as the program uses it: the span it carries.\<close>

type_synonym Context = "span_id option"

record span =
  span_tracer :: string
  span_name :: string
  span_parent :: "span_id option"
  span_attributes :: "(string \<times> 64 word) list"
  span_events :: "string list"
  span_ended :: bool

record runtime =
  spans :: "span list"
  finished :: "span_id list"
  clock :: "nat \<Rightarrow> 64 word"
  reads :: nat

text \<open>\<^verbatim>\<open>otel.Tracer(tracer).Start(ctx, name)\<close>: the new context and the new span.\<close>

definition tracer_Start ::
  "string \<Rightarrow> Context \<Rightarrow> string \<Rightarrow> runtime \<Rightarrow> Context \<times> span_id \<times> runtime" where
  "tracer_Start tracer ctx name rt =
     (let sid = length (spans rt);
          sp = \<lparr>span_tracer = tracer, span_name = name, span_parent = ctx,
                span_attributes = [], span_events = [], span_ended = False\<rparr>
      in (Some sid, sid, rt\<lparr>spans := spans rt @ [sp]\<rparr>))"

text \<open>
  Changes to a span that has ended, or that does not exist, are dropped. An attribute or
  an event is added after those the span has (the program sets one key per span, once).
\<close>

definition span_update :: "span_id \<Rightarrow> (span \<Rightarrow> span) \<Rightarrow> runtime \<Rightarrow> runtime" where
  "span_update sid f rt =
     (if sid < length (spans rt) \<and> \<not> span_ended (spans rt ! sid)
      then rt\<lparr>spans := (spans rt)[sid := f (spans rt ! sid)]\<rparr>
      else rt)"

definition span_SetAttributes :: "span_id \<Rightarrow> string \<times> 64 word \<Rightarrow> runtime \<Rightarrow> runtime" where
  "span_SetAttributes sid kv rt =
     span_update sid (\<lambda>sp. sp\<lparr>span_attributes := span_attributes sp @ [kv]\<rparr>) rt"

definition span_AddEvent :: "span_id \<Rightarrow> string \<Rightarrow> runtime \<Rightarrow> runtime" where
  "span_AddEvent sid ev rt =
     span_update sid (\<lambda>sp. sp\<lparr>span_events := span_events sp @ [ev]\<rparr>) rt"

definition span_End :: "span_id \<Rightarrow> runtime \<Rightarrow> runtime" where
  "span_End sid rt =
     (if sid < length (spans rt) \<and> \<not> span_ended (spans rt ! sid)
      then rt\<lparr>spans := (spans rt)[sid := (spans rt ! sid)\<lparr>span_ended := True\<rparr>],
              finished := finished rt @ [sid]\<rparr>
      else rt)"

text \<open>\<^verbatim>\<open>time.Now().UnixNano()\<close>: the next reading of the clock.\<close>

definition UnixNano :: "runtime \<Rightarrow> 64 word \<times> runtime" where
  "UnixNano rt = (clock rt (reads rt), rt\<lparr>reads := Suc (reads rt)\<rparr>)"

section \<open>main.go: fibonacci\<close>

text \<open>
  \<^verbatim>\<open>func fibonacci(ctx context.Context, n uint64) uint64\<close>. The span of the call is
  started, stamped and ended before the recursion; \<^verbatim>\<open>ctx\<close> is shadowed by the context
  that carries this span, so both recursive calls are its children, the call on
  \<^verbatim>\<open>n-1\<close> running first.
\<close>

function fibonacci :: "Context \<Rightarrow> uint64 \<Rightarrow> runtime \<Rightarrow> uint64 \<times> runtime" where
  "fibonacci ctx n rt =
     (let spanName = ''fibonacci-'' @ FormatUint n;
          (ctx', span, rt1) = tracer_Start ''fibonacci'' ctx spanName rt;
          (now, rt2) = UnixNano rt1;
          rt3 = span_SetAttributes span (''timestamp'', now) rt2
      in if n \<le> 1 then (n, span_End span rt3)
         else let rt4 = span_End span rt3;
                  (a, rt5) = fibonacci ctx' (n - 1) rt4;
                  (b, rt6) = fibonacci ctx' (n - 2) rt5
              in (a + b, rt6))"
  by pat_completeness auto
termination
proof (relation "measure (\<lambda>(ctx, n, rt). unat n)", goal_cases)
  case 1
  show ?case by simp
next
  case (2 ctx n)
  from \<open>\<not> n \<le> 1\<close> have "1 < unat n"
    by (simp add: word_le_nat_alt)
  moreover have "unat (n - 1) = unat n - 1"
    using \<open>\<not> n \<le> 1\<close> by (simp add: unat_sub)
  ultimately show ?case by simp
next
  case (3 ctx n)
  from \<open>\<not> n \<le> 1\<close> have "1 < unat n"
    by (simp add: word_le_nat_alt)
  moreover have "unat (n - 2) = unat n - 2"
    using \<open>\<not> n \<le> 1\<close> by (simp add: unat_sub word_le_nat_alt)
  ultimately show ?case by simp
qed

declare fibonacci.simps [simp del]

text \<open>
  The same body once more, defined as a least fixed point with no termination argument:
  here \<open>None\<close> is a call that does not return, and a recursive call that does not
  return makes its caller not return.
\<close>

partial_function (option) fibonacci_run ::
  "Context \<Rightarrow> uint64 \<Rightarrow> runtime \<Rightarrow> (uint64 \<times> runtime) option" where
  "fibonacci_run ctx n rt =
     (let spanName = ''fibonacci-'' @ FormatUint n;
          (ctx', span, rt1) = tracer_Start ''fibonacci'' ctx spanName rt;
          (now, rt2) = UnixNano rt1;
          rt3 = span_SetAttributes span (''timestamp'', now) rt2
      in if n \<le> 1 then Some (n, span_End span rt3)
         else let rt4 = span_End span rt3
              in do {
                (a, rt5) \<leftarrow> fibonacci_run ctx' (n - 1) rt4;
                (b, rt6) \<leftarrow> fibonacci_run ctx' (n - 2) rt5;
                Some (a + b, rt6)
              })"

text \<open>
  Every call of \<^verbatim>\<open>fibonacci\<close> starts exactly one span, so the number of spans
  that a call adds to the runtime is the number of calls it makes, itself included.
\<close>

definition fibonacci_calls :: "Context \<Rightarrow> uint64 \<Rightarrow> runtime \<Rightarrow> nat" where
  "fibonacci_calls ctx n rt = length (spans (snd (fibonacci ctx n rt))) - length (spans rt)"

section \<open>Go standard library: net/http\<close>

text \<open>
  A request, as far as the handlers read it: the parsed query (the pairs in the order of
  the URL; \<^verbatim>\<open>Query().Get\<close> returns the first value of a key, or the empty string) and
  the request's context. Neither handler looks at the method or the path.
\<close>

record request =
  req_method :: string
  req_path :: string
  req_query :: "(string \<times> string) list"
  req_context :: Context

definition query_Get :: "(string \<times> string) list \<Rightarrow> string \<Rightarrow> string" where
  "query_Get q k = (case map_of q k of None \<Rightarrow> [] | Some v \<Rightarrow> v)"

text \<open>
  A \<^verbatim>\<open>http.ResponseWriter\<close>: the status is fixed by the first \<^verbatim>\<open>WriteHeader\<close>, or
  by the first \<^verbatim>\<open>Write\<close> (as 200) when no header was written before it; a handler that
  returns without writing anything sends 200 and an empty body.
\<close>

record response =
  resp_status :: "nat option"
  resp_body :: string

definition StatusOK :: nat where
  "StatusOK = 200"

definition StatusBadRequest :: nat where
  "StatusBadRequest = 400"

definition new_response :: response where
  "new_response = \<lparr>resp_status = None, resp_body = []\<rparr>"

definition WriteHeader :: "nat \<Rightarrow> response \<Rightarrow> response" where
  "WriteHeader code resp =
     (case resp_status resp of
        None \<Rightarrow> resp\<lparr>resp_status := Some code\<rparr>
      | Some c \<Rightarrow> resp)"

definition Write :: "string \<Rightarrow> response \<Rightarrow> response" where
  "Write bytes resp =
     (let resp1 = WriteHeader StatusOK resp
      in resp1\<lparr>resp_body := resp_body resp1 @ bytes\<rparr>)"

definition sent :: "response \<Rightarrow> nat \<times> string" where
  "sent resp =
     (case resp_status resp of
        None \<Rightarrow> (StatusOK, resp_body resp)
      | Some c \<Rightarrow> (c, resp_body resp))"

section \<open>main.go: the handlers\<close>

text \<open>
  \<^verbatim>\<open>func (s *nestedSpanHandler) ServeHTTP(resp, req)\<close>. The deferred
  \<^verbatim>\<open>span.End()\<close> of the closure runs when the closure returns, the one of the handler
  when the handler returns; nothing is written to \<^verbatim>\<open>resp\<close>.
\<close>

definition nestedSpanHandler_ServeHTTP ::
  "response \<Rightarrow> request \<Rightarrow> runtime \<Rightarrow> response \<times> runtime" where
  "nestedSpanHandler_ServeHTTP resp req rt =
     (let (ctx, span, rt1) = tracer_Start ''nested'' (req_context req) ''parent'' rt;
          rt2 = span_AddEvent span ''parent event'' rt1;
          (now, rt3) = UnixNano rt2;
          rt4 = span_SetAttributes span (''parentId'', now) rt3;
          (ctx', span', rt5) = tracer_Start ''nested'' ctx ''child'' rt4;
          (now', rt6) = UnixNano rt5;
          rt7 = span_SetAttributes span' (''childId'', now') rt6;
          rt8 = span_End span' rt7
      in (resp, span_End span rt8))"

text \<open>\<^verbatim>\<open>func (s *fibonacciHandler) ServeHTTP(resp, req)\<close>.\<close>

definition fibonacciHandler_ServeHTTP ::
  "response \<Rightarrow> request \<Rightarrow> runtime \<Rightarrow> response \<times> runtime" where
  "fibonacciHandler_ServeHTTP resp req rt =
     (let n = query_Get (req_query req) ''n''
      in case ParseInt n of
           Inl err \<Rightarrow>
             (Write ''n is not a number'' (WriteHeader StatusBadRequest resp), rt)
         | Inr nCount \<Rightarrow>
             (let (ret, rt') = fibonacci (req_context req) (uint64 nCount) rt;
                  resp1 = WriteHeader StatusOK resp
              in (Write (FormatUint ret) resp1, rt')))"

text \<open>
  What the server does around a handler: it hands it a fresh response writer and sends
  what the handler left there.
\<close>

definition serve ::
  "(response \<Rightarrow> request \<Rightarrow> runtime \<Rightarrow> response \<times> runtime) \<Rightarrow> request \<Rightarrow> runtime
     \<Rightarrow> (nat \<times> string) \<times> runtime" where
  "serve handler req rt =
     (let (resp, rt') = handler new_response req rt in (sent resp, rt'))"

section \<open>The Fibonacci numbers\<close>

text \<open>The mathematical sequence, on the natural numbers, to compare the program with.\<close>

fun Fib :: "nat \<Rightarrow> nat" where
  "Fib 0 = 0"
| "Fib (Suc 0) = 1"
| "Fib (Suc (Suc k)) = Fib (Suc k) + Fib k"

text \<open>The same numbers computed from two neighbours, in linearly many steps.\<close>

fun Fib_iter :: "nat \<Rightarrow> nat \<Rightarrow> nat \<Rightarrow> nat" where
  "Fib_iter 0 a b = a"
| "Fib_iter (Suc k) a b = Fib_iter k b (a + b)"

section \<open>Concrete inputs\<close>

text \<open>
  A runtime with no span yet, whose clock counts its own readings, and a \<^verbatim>\<open>GET\<close>
  request whose context carries no span.
\<close>

definition rt0 :: runtime where
  "rt0 = \<lparr>spans = [], finished = [], clock = (\<lambda>i. of_nat i), reads = 0\<rparr>"

definition GET :: "string \<Rightarrow> (string \<times> string) list \<Rightarrow> request" where
  "GET path q = \<lparr>req_method = ''GET'', req_path = path, req_query = q, req_context = None\<rparr>"

section \<open>Arithmetic of the recursion\<close>

lemma unat_pred1: "\<not> n \<le> (1::uint64) \<Longrightarrow> unat (n - 1) = unat n - 1"
  by (simp add: unat_sub)

lemma unat_pred2: "\<not> n \<le> (1::uint64) \<Longrightarrow> unat (n - 2) = unat n - 2"
  by (simp add: unat_sub word_le_nat_alt)

lemma unat_gt1: "\<not> n \<le> (1::uint64) \<Longrightarrow> 1 < unat n"
  by (simp add: word_le_nat_alt)

lemma Fib_rec: "1 < k \<Longrightarrow> Fib k = Fib (k - 1) + Fib (k - 2)"
  by (cases k rule: Fib.cases) simp_all

lemma Fib_iter_eq: "Fib_iter k (Fib m) (Fib (Suc m)) = Fib (m + k)"
proof (induction k arbitrary: m)
  case 0
  show ?case by simp
next
  case (Suc k)
  have "Fib_iter (Suc k) (Fib m) (Fib (Suc m)) = Fib_iter k (Fib (Suc m)) (Fib (Suc (Suc m)))"
    by (simp add: add.commute)
  also have "\<dots> = Fib (Suc m + k)"
    by (rule Suc.IH)
  finally show ?case by simp
qed

lemma Fib_iter_numeral: "Fib_iter (numeral v) a b = Fib_iter (pred_numeral v) b (a + b)"
  by (simp add: numeral_eq_Suc)

lemma Fib_from_3: "Fib (3 + k) = Fib_iter k 2 3"
proof -
  have "Fib 3 = 2" and "Fib (Suc 3) = 3"
    by (simp_all add: numeral_eq_Suc)
  then show ?thesis
    using Fib_iter_eq [of k 3] by simp
qed

lemma Fib_10: "Fib 10 = 55"
  using Fib_from_3 [of 7] by (simp add: Fib_iter_numeral)

lemma Fib_93: "Fib 93 = 12200160415121876738"
  using Fib_from_3 [of 90] by (simp add: Fib_iter_numeral)

lemma Fib_94: "Fib 94 = 19740274219868223167"
  using Fib_from_3 [of 91] by (simp add: Fib_iter_numeral)

lemma Fib_mono_Suc: "Fib k \<le> Fib (Suc k)"
  by (cases k rule: Fib.cases) simp_all

lemma Fib_mono: "j \<le> k \<Longrightarrow> Fib j \<le> Fib k"
  by (rule lift_Suc_mono_le [of Fib, OF Fib_mono_Suc])

section \<open>The value that fibonacci returns\<close>

lemma fibonacci_base: "n \<le> 1 \<Longrightarrow> fst (fibonacci ctx n rt) = n"
  by (subst fibonacci.simps) (simp add: Let_def split: prod.splits)

text \<open>
  By induction on the argument read as a number: whatever the context and the runtime,
  the result is the Fibonacci number of the argument, cut to 64 bits.
\<close>

lemma fibonacci_value: "fst (fibonacci ctx n rt) = word_of_nat (Fib (unat n))"
proof (induction "unat n" arbitrary: ctx n rt rule: less_induct)
  case less
  show ?case
  proof (cases "n \<le> 1")
    case True
    then have "unat n = 0 \<or> unat n = 1"
      by (auto simp: word_le_nat_alt)
    then have "Fib (unat n) = unat n"
      by auto
    then show ?thesis using True by (simp add: fibonacci_base)
  next
    case False
    have l1: "unat (n - 1) < unat n" and l2: "unat (n - 2) < unat n"
      using unat_gt1[OF False] by (simp_all add: unat_pred1[OF False] unat_pred2[OF False])
    have "Fib (unat n) = Fib (unat (n - 1)) + Fib (unat (n - 2))"
      using Fib_rec[OF unat_gt1[OF False]] by (simp add: unat_pred1[OF False] unat_pred2[OF False])
    then show ?thesis
      using False
      by (subst fibonacci.simps) (simp add: Let_def split_def less[OF l1] less[OF l2])
  qed
qed

lemma fibonacci_unat: "unat (fst (fibonacci ctx n rt)) = Fib (unat n) mod 2 ^ 64"
  by (simp add: fibonacci_value unat_of_nat)

text \<open>
  C2. \<^verbatim>\<open>fibonacci(0) = 0\<close>, \<^verbatim>\<open>fibonacci(1) = 1\<close> and \<^verbatim>\<open>fibonacci(10) = 55\<close>, whatever
  the context argument (and whatever the state of the tracing SDK and of the clock).
\<close>

theorem fibonacci_0_1_10:
  "fst (fibonacci ctx 0 rt) = 0 \<and> fst (fibonacci ctx 1 rt) = 1 \<and> fst (fibonacci ctx 10 rt) = 55"
  by (simp add: fibonacci_value Fib_10)

text \<open>
  C9. The number that \<^verbatim>\<open>fibonacci\<close> returns depends on \<^verbatim>\<open>n\<close> only: two calls with
  the same \<^verbatim>\<open>n\<close> return the same value, whatever their contexts and whatever spans
  and clock readings the runtime holds.
\<close>

theorem fibonacci_context_independent:
  "fst (fibonacci ctx1 n rt1) = fst (fibonacci ctx2 n rt2)"
  by (simp add: fibonacci_value)

section \<open>A run of fibonacci(2)\<close>

lemma FormatUint_small: "FormatUint 0 = ''0''" "FormatUint 1 = ''1''" "FormatUint 2 = ''2''"
  by (simp_all add: FormatUint_def format_decimal.simps digit_char_def)

text \<open>
  The call on 2 records three spans: its own, and one for each recursive call, both
  under the span of the call on 2; each span has ended before the next one starts.
\<close>

lemma fibonacci_2_trace:
  "fst (fibonacci None 2 rt0) = 1 \<and>
   map (\<lambda>sp. (span_name sp, span_parent sp, span_attributes sp, span_ended sp))
       (spans (snd (fibonacci None 2 rt0))) =
     [(''fibonacci-2'', None, [(''timestamp'', 0)], True),
      (''fibonacci-1'', Some 0, [(''timestamp'', 1)], True),
      (''fibonacci-0'', Some 0, [(''timestamp'', 2)], True)] \<and>
   finished (snd (fibonacci None 2 rt0)) = [0, 1, 2]"
  by (simp add: fibonacci.simps [of _ 2] fibonacci.simps [of _ 1] fibonacci.simps [of _ 0]
      FormatUint_small tracer_Start_def UnixNano_def span_SetAttributes_def span_update_def
      span_End_def rt0_def Let_def word_le_nat_alt)

section \<open>The calls that fibonacci makes\<close>

lemma Fib_Suc_pos: "0 < Fib (Suc k)"
  by (induction k rule: Fib.induct) simp_all

lemma length_spans_update [simp]: "length (spans (span_update sid f rt)) = length (spans rt)"
  by (simp add: span_update_def)

lemma length_spans_SetAttributes [simp]:
  "length (spans (span_SetAttributes sid kv rt)) = length (spans rt)"
  by (simp add: span_SetAttributes_def)

lemma length_spans_End [simp]: "length (spans (span_End sid rt)) = length (spans rt)"
  by (simp add: span_End_def)

lemma length_spans_UnixNano [simp]: "length (spans (snd (UnixNano rt))) = length (spans rt)"
  by (simp add: UnixNano_def)

lemma length_spans_Start [simp]:
  "length (spans (snd (snd (tracer_Start tr ctx nm rt)))) = Suc (length (spans rt))"
  by (simp add: tracer_Start_def Let_def)

text \<open>
  The spans of a call are those of the whole recursion tree: one for the call and all those
  of the two recursive calls, none shared. There are \<open>2 * Fib (n + 1) - 1\<close> of them.
\<close>

lemma fibonacci_spans:
  "length (spans (snd (fibonacci ctx n rt))) = length (spans rt) + (2 * Fib (Suc (unat n)) - 1)"
proof (induction "unat n" arbitrary: ctx n rt rule: less_induct)
  case less
  show ?case
  proof (cases "n \<le> 1")
    case True
    then have "unat n = 0 \<or> unat n = 1"
      by (auto simp: word_le_nat_alt)
    then have "Fib (Suc (unat n)) = 1"
      by auto
    then show ?thesis
      using True by (subst fibonacci.simps) (simp add: Let_def split_def)
  next
    case False
    have l1: "unat (n - 1) < unat n" and l2: "unat (n - 2) < unat n"
      using unat_gt1[OF False] by (simp_all add: unat_pred1[OF False] unat_pred2[OF False])
    have s1: "Suc (unat (n - 1)) = unat n" and s2: "Suc (unat (n - 2)) = unat n - 1"
      using unat_gt1[OF False] by (simp_all add: unat_pred1[OF False] unat_pred2[OF False])
    have rec: "Fib (Suc (unat n)) = Fib (unat n) + Fib (unat n - 1)"
      using Fib_rec [of "Suc (unat n)"] unat_gt1[OF False] by simp
    have p1: "0 < Fib (unat n)" and p2: "0 < Fib (unat n - 1)"
      using Fib_Suc_pos [of "unat (n - 1)"] Fib_Suc_pos [of "unat (n - 2)"]
      by (simp_all add: s1 s2)
    show ?thesis
      using False p1 p2
      by (subst fibonacci.simps)
         (simp add: Let_def split_def less[OF l1] less[OF l2] s1 s2 rec)
  qed
qed

lemma fibonacci_calls_eq: "fibonacci_calls ctx n rt = 2 * Fib (Suc (unat n)) - 1"
  by (simp add: fibonacci_calls_def fibonacci_spans)

text \<open>
  C3. \<^verbatim>\<open>fibonacci\<close> is the textbook recursion: for \<^verbatim>\<open>n <= 1\<close> it returns \<^verbatim>\<open>n\<close>, for
  \<^verbatim>\<open>n > 1\<close> the sum, in \<^verbatim>\<open>uint64\<close>, of its values at \<^verbatim>\<open>n-1\<close> and \<^verbatim>\<open>n-2\<close>
  (whatever contexts and runtimes these are computed in). Nothing is memoized: a call on
  \<^verbatim>\<open>n <= 1\<close> is one call, and a call on \<^verbatim>\<open>n > 1\<close> makes, besides itself, all the calls
  of a call on \<^verbatim>\<open>n-1\<close> and all the calls of a call on \<^verbatim>\<open>n-2\<close>.
\<close>

theorem fibonacci_textbook:
  "fst (fibonacci ctx n rt) =
     (if n \<le> 1 then n
      else fst (fibonacci ctx1 (n - 1) rt1) + fst (fibonacci ctx2 (n - 2) rt2)) \<and>
   fibonacci_calls ctx n rt =
     (if n \<le> 1 then 1
      else 1 + fibonacci_calls ctx1 (n - 1) rt1 + fibonacci_calls ctx2 (n - 2) rt2)"
proof (cases "n \<le> 1")
  case True
  then have "unat n = 0 \<or> unat n = 1"
    by (auto simp: word_le_nat_alt)
  then have "Fib (Suc (unat n)) = 1"
    by auto
  then show ?thesis
    using True by (simp add: fibonacci_base fibonacci_calls_eq)
next
  case False
  have s1: "Suc (unat (n - 1)) = unat n" and s2: "Suc (unat (n - 2)) = unat n - 1"
    using unat_gt1[OF False] by (simp_all add: unat_pred1[OF False] unat_pred2[OF False])
  have rec: "Fib (Suc (unat n)) = Fib (unat n) + Fib (unat n - 1)"
    using Fib_rec [of "Suc (unat n)"] unat_gt1[OF False] by simp
  have rec0: "Fib (unat n) = Fib (unat (n - 1)) + Fib (unat (n - 2))"
    using Fib_rec[OF unat_gt1[OF False]] by (simp add: unat_pred1[OF False] unat_pred2[OF False])
  have p1: "0 < Fib (unat n)" and p2: "0 < Fib (unat n - 1)"
    using Fib_Suc_pos [of "unat (n - 1)"] Fib_Suc_pos [of "unat (n - 2)"]
    by (simp_all add: s1 s2)
  have "fst (fibonacci ctx n rt) =
      fst (fibonacci ctx1 (n - 1) rt1) + fst (fibonacci ctx2 (n - 2) rt2)"
    by (simp add: fibonacci_value rec0)
  moreover have "fibonacci_calls ctx n rt =
      1 + fibonacci_calls ctx1 (n - 1) rt1 + fibonacci_calls ctx2 (n - 2) rt2"
    using p1 p2 by (simp add: fibonacci_calls_eq s1 s2 rec)
  ultimately show ?thesis
    using False by simp
qed

text \<open>At 10: the call makes 177 calls, one more than those of the calls on 9 and on 8.\<close>

theorem fibonacci_textbook_witness:
  "\<not> (10::uint64) \<le> 1 \<and>
   fst (fibonacci None 10 rt0) = fst (fibonacci None 9 rt0) + fst (fibonacci None 8 rt0) \<and>
   fibonacci_calls None 10 rt0 = 1 + fibonacci_calls None 9 rt0 + fibonacci_calls None 8 rt0 \<and>
   fibonacci_calls None 10 rt0 = 177"
proof -
  have "Fib 11 = 89"
    using Fib_from_3 [of 8] by (simp add: Fib_iter_numeral)
  then have "fibonacci_calls None 10 rt0 = 177"
    by (simp add: fibonacci_calls_eq)
  moreover have "\<not> (10::uint64) \<le> 1"
    by (simp add: word_le_nat_alt)
  ultimately show ?thesis
    using fibonacci_textbook [of None 10 rt0 None rt0 None rt0] by simp
qed

section \<open>Overflow\<close>

text \<open>
  C10. The result of \<^verbatim>\<open>fibonacci\<close>, read as a number, is the Fibonacci number of \<^verbatim>\<open>n\<close>
  modulo \<open>2 ^ 64\<close>; it is the Fibonacci number itself for every \<^verbatim>\<open>n <= 93\<close>; and for
  some \<^verbatim>\<open>n >= 94\<close> (for 94 itself) it is not.
\<close>

theorem fibonacci_mod_2_64:
  "unat (fst (fibonacci ctx n rt)) = Fib (unat n) mod 2 ^ 64 \<and>
   (n \<le> 93 \<longrightarrow> unat (fst (fibonacci ctx n rt)) = Fib (unat n)) \<and>
   (\<exists>m. 94 \<le> m \<and> unat (fst (fibonacci ctx m rt)) \<noteq> Fib (unat m))"
proof (intro conjI impI)
  show "unat (fst (fibonacci ctx n rt)) = Fib (unat n) mod 2 ^ 64"
    by (rule fibonacci_unat)
next
  assume "n \<le> 93"
  then have "unat n \<le> 93"
    by (simp add: word_le_nat_alt)
  then have "Fib (unat n) \<le> Fib 93"
    by (rule Fib_mono)
  then have "Fib (unat n) < 2 ^ 64"
    by (simp add: Fib_93)
  then show "unat (fst (fibonacci ctx n rt)) = Fib (unat n)"
    by (simp add: fibonacci_unat)
next
  have "unat (fst (fibonacci ctx 94 rt)) < 2 ^ 64"
    by (simp add: fibonacci_unat)
  moreover have "(2::nat) ^ 64 \<le> Fib (unat (94::uint64))"
    by (simp add: Fib_94)
  ultimately have
    "(94::uint64) \<le> 94 \<and> unat (fst (fibonacci ctx 94 rt)) \<noteq> Fib (unat (94::uint64))"
    by simp
  then show "\<exists>m. 94 \<le> m \<and> unat (fst (fibonacci ctx m rt)) \<noteq> Fib (unat m)"
    by blast
qed

theorem fibonacci_mod_2_64_witness:
  "(10::uint64) \<le> 93 \<and> unat (fst (fibonacci None 10 rt0)) = 55 \<and> Fib (unat (10::uint64)) = 55"
  using fibonacci_mod_2_64 [of None 10 rt0]
  by (simp add: Fib_10)

section \<open>Termination\<close>

lemma fibonacci_run_total: "fibonacci_run ctx n rt = Some (fibonacci ctx n rt)"
proof (induction "unat n" arbitrary: ctx n rt rule: less_induct)
  case less
  show ?case
  proof (cases "n \<le> 1")
    case True
    then show ?thesis
      by (subst fibonacci_run.simps, subst fibonacci.simps) (simp add: Let_def split_def)
  next
    case False
    have l1: "unat (n - 1) < unat n" and l2: "unat (n - 2) < unat n"
      using unat_gt1[OF False] by (simp_all add: unat_pred1[OF False] unat_pred2[OF False])
    show ?thesis
      using False
      by (subst fibonacci_run.simps, subst fibonacci.simps)
         (simp add: Let_def split_def less[OF l1] less[OF l2])
  qed
qed

lemma uint64_minus_1: "uint64 (- 1) = 18446744073709551615"
  by (simp add: uint64_def)

text \<open>
  C8. \<^verbatim>\<open>fibonacci\<close> returns for every \<^verbatim>\<open>uint64\<close> argument, also for one that is the
  conversion of a negative \<^verbatim>\<open>int64\<close>: the least fixed point of the body, in which a call
  that does not return is \<open>None\<close>, returns what the total function returns. The recursion
  is well-founded: above the base case \<^verbatim>\<open>n <= 1\<close>, both \<^verbatim>\<open>n-1\<close> and \<^verbatim>\<open>n-2\<close> are smaller
  than \<^verbatim>\<open>n\<close> as numbers (no subtraction wraps around).
\<close>

theorem fibonacci_terminates:
  "fibonacci_run ctx n rt = Some (fibonacci ctx n rt) \<and>
   fibonacci_run ctx (uint64 i) rt = Some (fibonacci ctx (uint64 i) rt) \<and>
   (\<not> n \<le> 1 \<longrightarrow> unat (n - 1) < unat n \<and> unat (n - 2) < unat n)"
proof -
  have "unat (n - 1) < unat n \<and> unat (n - 2) < unat n" if "\<not> n \<le> 1"
    using unat_gt1[OF that] by (simp add: unat_pred1[OF that] unat_pred2[OF that])
  then show ?thesis
    by (simp add: fibonacci_run_total)
qed

theorem fibonacci_terminates_witness:
  "\<not> uint64 (- 1) \<le> 1 \<and>
   unat (uint64 (- 1) - 1) < unat (uint64 (- 1)) \<and>
   unat (uint64 (- 1) - 2) < unat (uint64 (- 1)) \<and>
   fibonacci_run None (uint64 (- 1)) rt0 = Some (fibonacci None (uint64 (- 1)) rt0)"
  using fibonacci_terminates [of None "uint64 (- 1)" rt0 "- 1"]
  by (simp add: uint64_minus_1 word_le_nat_alt)

section \<open>Parsing and formatting\<close>

lemmas strconv_defs = ParseInt_def ParseUint_def is_digit_def digit_val_def maxUint64_def

lemma ParseInt_10: "ParseInt ''10'' = Inr 10"
  by (simp add: strconv_defs)

lemma ParseInt_abc: "ParseInt ''abc'' = Inl ErrSyntax"
  by (simp add: strconv_defs)

lemma ParseInt_minus_1: "ParseInt ''-1'' = Inr (- 1)"
  by (simp add: strconv_defs)

text \<open>
  What else \<^verbatim>\<open>ParseInt\<close> takes and refuses: a plus sign and the least \<^verbatim>\<open>int64\<close> are
  taken; the empty string, a lone sign, an underscore between digits and a number beyond
  the \<^verbatim>\<open>int64\<close> range are refused.
\<close>

lemma ParseInt_examples:
  "ParseInt ''+10'' = Inr 10"
  "ParseInt ''-9223372036854775808'' = Inr (- 9223372036854775808)"
  "ParseInt [] = Inl ErrSyntax"
  "ParseInt ''-'' = Inl ErrSyntax"
  "ParseInt ''1_0'' = Inl ErrSyntax"
  "ParseInt ''9223372036854775808'' = Inl ErrRange"
  "ParseInt ''99999999999999999999'' = Inl ErrRange"
  by (simp_all add: strconv_defs)

lemma FormatUint_55: "FormatUint 55 = ''55''"
  by (simp add: FormatUint_def format_decimal.simps digit_char_def)

section \<open>The fibonacci handler\<close>

lemma sent_Write_WriteHeader:
  "sent (Write bytes (WriteHeader code new_response)) = (code, bytes)"
  by (simp add: sent_def Write_def WriteHeader_def new_response_def)

lemma sent_new_response: "sent new_response = (200, [])"
  by (simp add: sent_def new_response_def StatusOK_def)

lemma serve_fibonacci_Inr:
  "ParseInt (query_Get (req_query req) ''n'') = Inr v \<Longrightarrow>
   serve fibonacciHandler_ServeHTTP req rt =
     ((200, FormatUint (fst (fibonacci (req_context req) (uint64 v) rt))),
      snd (fibonacci (req_context req) (uint64 v) rt))"
  by (simp add: serve_def fibonacciHandler_ServeHTTP_def Let_def split_def
      sent_Write_WriteHeader StatusOK_def)

lemma serve_fibonacci_Inl:
  "ParseInt (query_Get (req_query req) ''n'') = Inl e \<Longrightarrow>
   serve fibonacciHandler_ServeHTTP req rt = ((400, ''n is not a number''), rt)"
  by (simp add: serve_def fibonacciHandler_ServeHTTP_def Let_def
      sent_Write_WriteHeader StatusBadRequest_def)

lemma query_Get_single: "query_Get (req_query (GET path [(''n'', s)])) ''n'' = s"
  by (simp add: query_Get_def GET_def)

lemma req_context_GET: "req_context (GET path q) = None"
  by (simp add: GET_def)

text \<open>
  C1. When the \<^verbatim>\<open>n\<close> parameter of the request parses as a decimal integer (that is,
  \<^verbatim>\<open>ParseInt\<close> returns no error), the handler answers 200 and the decimal text of what
  \<^verbatim>\<open>fibonacci\<close> returns on that integer, converted to \<^verbatim>\<open>uint64\<close>, in the context of the
  request; the runtime is left as \<^verbatim>\<open>fibonacci\<close> leaves it. In particular
  \<^verbatim>\<open>GET /fibonacci?n=10\<close> is answered by 200 and \<^verbatim>\<open>55\<close>.
\<close>

theorem fibonacciHandler_ok:
  "(ParseInt (query_Get (req_query req) ''n'') = Inr v \<longrightarrow>
      serve fibonacciHandler_ServeHTTP req rt =
        ((200, FormatUint (fst (fibonacci (req_context req) (uint64 v) rt))),
         snd (fibonacci (req_context req) (uint64 v) rt))) \<and>
   fst (serve fibonacciHandler_ServeHTTP (GET ''/fibonacci'' [(''n'', ''10'')]) rt) = (200, ''55'')"
proof (intro conjI impI)
  assume "ParseInt (query_Get (req_query req) ''n'') = Inr v"
  then show "serve fibonacciHandler_ServeHTTP req rt =
        ((200, FormatUint (fst (fibonacci (req_context req) (uint64 v) rt))),
         snd (fibonacci (req_context req) (uint64 v) rt))"
    by (rule serve_fibonacci_Inr)
next
  have "ParseInt (query_Get (req_query (GET ''/fibonacci'' [(''n'', ''10'')])) ''n'') = Inr 10"
    by (simp only: query_Get_single ParseInt_10)
  from serve_fibonacci_Inr [OF this]
  show "fst (serve fibonacciHandler_ServeHTTP (GET ''/fibonacci'' [(''n'', ''10'')]) rt) = (200, ''55'')"
    by (simp add: uint64_def fibonacci_value Fib_10 FormatUint_55)
qed

theorem fibonacciHandler_ok_witness:
  "ParseInt (query_Get (req_query (GET ''/fibonacci'' [(''n'', ''7'')])) ''n'') = Inr 7 \<and>
   fst (serve fibonacciHandler_ServeHTTP (GET ''/fibonacci'' [(''n'', ''7'')]) rt0) = (200, ''13'')"
proof -
  have p: "ParseInt (query_Get (req_query (GET ''/fibonacci'' [(''n'', ''7'')])) ''n'') = Inr 7"
    by (simp add: query_Get_single strconv_defs)
  have "Fib 7 = 13"
    by (simp add: numeral_eq_Suc)
  then have "fst (fibonacci None (uint64 7) rt0) = 13"
    by (simp add: uint64_def fibonacci_value)
  moreover have "FormatUint 13 = ''13''"
    by (simp add: FormatUint_def format_decimal.simps digit_char_def)
  moreover have "req_context (GET ''/fibonacci'' [(''n'', ''7'')]) = None"
    by (rule req_context_GET)
  ultimately show ?thesis
    using p fibonacciHandler_ok [of "GET ''/fibonacci'' [(''n'', ''7'')]" 7 rt0]
    by simp
qed

text \<open>
  C4. When the \<^verbatim>\<open>n\<close> parameter does not parse (\<^verbatim>\<open>ParseInt\<close> returns an error), the
  handler answers 400 and \<^verbatim>\<open>n is not a number\<close>, and leaves the runtime as it was. There
  is no other error path: an answer that is not 200 comes from a parse error. In
  particular \<^verbatim>\<open>GET /fibonacci?n=abc\<close> is answered by 400 and \<^verbatim>\<open>n is not a number\<close>.
\<close>

theorem fibonacciHandler_bad_request:
  "(ParseInt (query_Get (req_query req) ''n'') = Inl e \<longrightarrow>
      serve fibonacciHandler_ServeHTTP req rt = ((400, ''n is not a number''), rt)) \<and>
   (fst (fst (serve fibonacciHandler_ServeHTTP req rt)) \<noteq> 200 \<longrightarrow>
      (\<exists>e'. ParseInt (query_Get (req_query req) ''n'') = Inl e')) \<and>
   serve fibonacciHandler_ServeHTTP (GET ''/fibonacci'' [(''n'', ''abc'')]) rt =
     ((400, ''n is not a number''), rt)"
proof (intro conjI impI)
  assume "ParseInt (query_Get (req_query req) ''n'') = Inl e"
  then show "serve fibonacciHandler_ServeHTTP req rt = ((400, ''n is not a number''), rt)"
    by (rule serve_fibonacci_Inl)
next
  assume ne: "fst (fst (serve fibonacciHandler_ServeHTTP req rt)) \<noteq> 200"
  show "\<exists>e'. ParseInt (query_Get (req_query req) ''n'') = Inl e'"
  proof (cases "ParseInt (query_Get (req_query req) ''n'')")
    case (Inl e')
    then show ?thesis by blast
  next
    case (Inr v)
    from serve_fibonacci_Inr [OF this] ne show ?thesis by simp
  qed
next
  have "ParseInt (query_Get (req_query (GET ''/fibonacci'' [(''n'', ''abc'')])) ''n'') = Inl ErrSyntax"
    by (simp only: query_Get_single ParseInt_abc)
  then show "serve fibonacciHandler_ServeHTTP (GET ''/fibonacci'' [(''n'', ''abc'')]) rt =
     ((400, ''n is not a number''), rt)"
    by (rule serve_fibonacci_Inl)
qed

text \<open>At a request with no \<^verbatim>\<open>n\<close> at all: the empty string does not parse.\<close>

theorem fibonacciHandler_bad_request_witness:
  "ParseInt (query_Get (req_query (GET ''/fibonacci'' [])) ''n'') = Inl ErrSyntax \<and>
   serve fibonacciHandler_ServeHTTP (GET ''/fibonacci'' []) rt0 =
     ((400, ''n is not a number''), rt0) \<and>
   fst (fst (serve fibonacciHandler_ServeHTTP (GET ''/fibonacci'' []) rt0)) \<noteq> 200"
proof -
  have p: "ParseInt (query_Get (req_query (GET ''/fibonacci'' [])) ''n'') = Inl ErrSyntax"
    by (simp add: query_Get_def GET_def ParseInt_def)
  show ?thesis
    using p fibonacciHandler_bad_request [of "GET ''/fibonacci'' []" ErrSyntax rt0]
    by simp
qed

text \<open>
  C5. The claim is that an \<^verbatim>\<open>n\<close> that is no non-negative integer, such as \<^verbatim>\<open>-1\<close>, is
  answered by 400 and \<^verbatim>\<open>fibonacci\<close> is not computed on it. The handler does otherwise:
  \<^verbatim>\<open>ParseInt\<close> takes \<^verbatim>\<open>-1\<close>, the conversion to \<^verbatim>\<open>uint64\<close> makes it
  18446744073709551615, and the handler calls \<^verbatim>\<open>fibonacci\<close> on that and answers 200.
\<close>

theorem fibonacciHandler_negative:
  "ParseInt ''-1'' = Inr (- 1) \<and>
   uint64 (- 1) = 18446744073709551615 \<and>
   serve fibonacciHandler_ServeHTTP (GET ''/fibonacci'' [(''n'', ''-1'')]) rt =
     ((200, FormatUint (fst (fibonacci None 18446744073709551615 rt))),
      snd (fibonacci None 18446744073709551615 rt))"
proof -
  have "ParseInt (query_Get (req_query (GET ''/fibonacci'' [(''n'', ''-1'')])) ''n'') = Inr (- 1)"
    by (simp only: query_Get_single ParseInt_minus_1)
  from serve_fibonacci_Inr [OF this] show ?thesis
    by (simp add: ParseInt_minus_1 uint64_minus_1 req_context_GET)
qed

section \<open>The nested-span handler\<close>

lemma span_update_at:
  "spans rt = xs @ sp # ys \<Longrightarrow> \<not> span_ended sp \<Longrightarrow>
   span_update (length xs) f rt = rt\<lparr>spans := xs @ f sp # ys\<rparr>"
  by (simp add: span_update_def)

lemma span_End_at:
  "spans rt = xs @ sp # ys \<Longrightarrow> \<not> span_ended sp \<Longrightarrow>
   span_End (length xs) rt =
     rt\<lparr>spans := xs @ sp\<lparr>span_ended := True\<rparr> # ys, finished := finished rt @ [length xs]\<rparr>"
  by (simp add: span_End_def)

text \<open>The runtime after the handler, followed statement by statement.\<close>

lemma nestedSpanHandler_runtime:
  "snd (nestedSpanHandler_ServeHTTP resp req rt) =
      rt\<lparr>spans := spans rt @
           [\<lparr>span_tracer = ''nested'', span_name = ''parent'', span_parent = req_context req,
             span_attributes = [(''parentId'', clock rt (reads rt))],
             span_events = [''parent event''], span_ended = True\<rparr>,
            \<lparr>span_tracer = ''nested'', span_name = ''child'',
             span_parent = Some (length (spans rt)),
             span_attributes = [(''childId'', clock rt (Suc (reads rt)))],
             span_events = [], span_ended = True\<rparr>],
         finished := finished rt @ [Suc (length (spans rt)), length (spans rt)],
         reads := reads rt + 2\<rparr>"
proof -
  define S where "S = spans rt"
  define P0 where "P0 = \<lparr>span_tracer = ''nested'', span_name = ''parent'',
    span_parent = req_context req, span_attributes = [], span_events = [], span_ended = False\<rparr>"
  define P1 where "P1 = P0\<lparr>span_events := [''parent event'']\<rparr>"
  define P2 where "P2 = P1\<lparr>span_attributes := [(''parentId'', clock rt (reads rt))]\<rparr>"
  define C0 where "C0 = \<lparr>span_tracer = ''nested'', span_name = ''child'',
    span_parent = Some (length S), span_attributes = [], span_events = [], span_ended = False\<rparr>"
  define C1 where "C1 = C0\<lparr>span_attributes := [(''childId'', clock rt (Suc (reads rt)))]\<rparr>"
  define rt1 where "rt1 = rt\<lparr>spans := S @ [P0]\<rparr>"
  define rt2 where "rt2 = rt\<lparr>spans := S @ [P1]\<rparr>"
  define rt3 where "rt3 = rt\<lparr>spans := S @ [P1], reads := Suc (reads rt)\<rparr>"
  define rt4 where "rt4 = rt\<lparr>spans := S @ [P2], reads := Suc (reads rt)\<rparr>"
  define rt5 where "rt5 = rt\<lparr>spans := S @ [P2, C0], reads := Suc (reads rt)\<rparr>"
  define rt6 where "rt6 = rt\<lparr>spans := S @ [P2, C0], reads := Suc (Suc (reads rt))\<rparr>"
  define rt7 where "rt7 = rt\<lparr>spans := S @ [P2, C1], reads := Suc (Suc (reads rt))\<rparr>"
  define rt8 where "rt8 = rt\<lparr>spans := S @ [P2, C1\<lparr>span_ended := True\<rparr>],
    finished := finished rt @ [Suc (length S)], reads := Suc (Suc (reads rt))\<rparr>"
  define rt9 where "rt9 =
    rt\<lparr>spans := S @ [P2\<lparr>span_ended := True\<rparr>, C1\<lparr>span_ended := True\<rparr>],
       finished := finished rt @ [Suc (length S), length S], reads := Suc (Suc (reads rt))\<rparr>"
  have e1: "tracer_Start ''nested'' (req_context req) ''parent'' rt =
      (Some (length S), length S, rt1)"
    by (simp add: tracer_Start_def Let_def rt1_def P0_def S_def)
  have e2: "span_AddEvent (length S) ''parent event'' rt1 = rt2"
    using span_update_at [of rt1 S P0 "[]"]
    by (simp add: span_AddEvent_def rt1_def rt2_def P1_def P0_def)
  have e3: "UnixNano rt2 = (clock rt (reads rt), rt3)"
    by (simp add: UnixNano_def rt2_def rt3_def)
  have e4: "span_SetAttributes (length S) (''parentId'', clock rt (reads rt)) rt3 = rt4"
    using span_update_at [of rt3 S P1 "[]"]
    by (simp add: span_SetAttributes_def rt3_def rt4_def P2_def P1_def P0_def)
  have e5: "tracer_Start ''nested'' (Some (length S)) ''child'' rt4 =
      (Some (Suc (length S)), Suc (length S), rt5)"
    by (simp add: tracer_Start_def Let_def rt4_def rt5_def C0_def)
  have e6: "UnixNano rt5 = (clock rt (Suc (reads rt)), rt6)"
    by (simp add: UnixNano_def rt5_def rt6_def)
  have e7: "span_SetAttributes (Suc (length S)) (''childId'', clock rt (Suc (reads rt))) rt6 = rt7"
    using span_update_at [of rt6 "S @ [P2]" C0 "[]"]
    by (simp add: span_SetAttributes_def rt6_def rt7_def C1_def C0_def)
  have e8: "span_End (Suc (length S)) rt7 = rt8"
    using span_End_at [of rt7 "S @ [P2]" C1 "[]"]
    by (simp add: rt7_def rt8_def C1_def C0_def)
  have e9: "span_End (length S) rt8 = rt9"
    using span_End_at [of rt8 S P2 "[C1\<lparr>span_ended := True\<rparr>]"]
    by (simp add: rt8_def rt9_def P2_def P1_def P0_def)
  have "snd (nestedSpanHandler_ServeHTTP resp req rt) = rt9"
    by (simp add: nestedSpanHandler_ServeHTTP_def e1 e2 e3 e4 e5 e6 e7 e8 e9)
  then show ?thesis
    by (simp add: rt9_def P2_def P1_def P0_def C1_def C0_def S_def)
qed

lemma nestedSpanHandler_response: "fst (nestedSpanHandler_ServeHTTP resp req rt) = resp"
  by (simp add: nestedSpanHandler_ServeHTTP_def Let_def split_def)

text \<open>
  C6. Whatever the request (its method, path, query and context), the nested-span
  handler answers 200 with an empty body. Its only effect is on the runtime: two spans
  are recorded after those already there, \<^verbatim>\<open>parent\<close> under the span of the request's
  context and \<^verbatim>\<open>child\<close> under \<^verbatim>\<open>parent\<close>; the child ends first; the clock is read
  twice.
\<close>

theorem nestedSpanHandler_ok:
  "serve nestedSpanHandler_ServeHTTP req rt =
     ((200, []),
      rt\<lparr>spans := spans rt @
           [\<lparr>span_tracer = ''nested'', span_name = ''parent'', span_parent = req_context req,
             span_attributes = [(''parentId'', clock rt (reads rt))],
             span_events = [''parent event''], span_ended = True\<rparr>,
            \<lparr>span_tracer = ''nested'', span_name = ''child'',
             span_parent = Some (length (spans rt)),
             span_attributes = [(''childId'', clock rt (Suc (reads rt)))],
             span_events = [], span_ended = True\<rparr>],
         finished := finished rt @ [Suc (length (spans rt)), length (spans rt)],
         reads := reads rt + 2\<rparr>)"
  using nestedSpanHandler_runtime [of new_response req rt]
    nestedSpanHandler_response [of new_response req rt]
  by (simp add: serve_def split_def sent_new_response)

end
